theory Spec2Isabelle
  imports Main
begin

section \<open>Exceptions (app/utilities/exceptions.py and the raises of the handlers)\<close>

text \<open>
  Every \<^verbatim>\<open>raise\<close> of the source is a value \<open>Inl e\<close> of a sum type. \<open>HTTPException\<close>
  carries FastAPI's status code, detail and optional headers. \<open>UnknownHashError\<close> and
  \<open>ValueError\<close> are the two exceptions that passlib's verification raises, and
  \<open>DBAPIError\<close> is SQLAlchemy's error for a statement that the database refuses (its
  subclasses \<^verbatim>\<open>IntegrityError\<close> and \<^verbatim>\<open>DataError\<close>). No handler of the repository catches
  them.
\<close>

datatype exn =
    HTTPException (status_code: nat) (detail: string)
                  (headers: "(string \<times> string) list option")
  | UnknownHashError
  | ValueError
  | DBAPIError

definition CREDENTIALS_EXCEPTION :: exn where
  "CREDENTIALS_EXCEPTION =
     HTTPException 401 ''Could not validate credentials''
       (Some [(''WWW-Authenticate'', ''Bearer'')])"

definition ADMIN_EXCEPTION :: exn where
  "ADMIN_EXCEPTION =
     HTTPException 401 ''Require admin privileges.''
       (Some [(''WWW-Authenticate'', ''Bearer'')])"

definition TOKEN_EXPIRE_EXCEPTION :: exn where
  "TOKEN_EXPIRE_EXCEPTION =
     HTTPException 401 ''Token expired.''
       (Some [(''WWW-Authenticate'', ''Bearer'')])"


section \<open>The data model (app/models/user_models.py)\<close>

text \<open>
  A \<open>char\<close> stands for one character of a Python \<^verbatim>\<open>str\<close>, so \<open>length\<close> is Python's
  \<^verbatim>\<open>len\<close>. Time stamps are seconds as integers.

  \<^verbatim>\<open>RoleType\<close> is a \<^verbatim>\<open>str\<close> enumeration: its members compare and hash as their string
  values, and \<^verbatim>\<open>UserUpdate.role\<close> is a plain \<^verbatim>\<open>str\<close>. The attribute \<open>role\<close> of a loaded
  row is the string value of its member.
\<close>

datatype RoleType = ADMIN | USER | TESTER

fun RoleType_value :: "RoleType \<Rightarrow> string" where
  "RoleType_value ADMIN = ''Administrateur''"
| "RoleType_value USER = ''Utilisateur''"
| "RoleType_value TESTER = ''Testeur''"

fun RoleType_name :: "RoleType \<Rightarrow> string" where
  "RoleType_name ADMIN = ''ADMIN''"
| "RoleType_name USER = ''USER''"
| "RoleType_name TESTER = ''TESTER''"

text \<open>
  The column \<open>role\<close> is an Enum column of \<^verbatim>\<open>RoleType\<close>. A value assigned to it is stored
  when it is the name of a member or equal to a member (a \<^verbatim>\<open>str\<close> enumeration equals its
  string value), and is refused otherwise. A stored member is read back as the member.
\<close>

definition role_column :: "string \<Rightarrow> RoleType option" where
  "role_column s = find (\<lambda>m. RoleType_name m = s \<or> RoleType_value m = s) [ADMIN, USER, TESTER]"

definition role_read_back :: "string \<Rightarrow> string" where
  "role_read_back s = (case role_column s of Some m \<Rightarrow> RoleType_value m | None \<Rightarrow> s)"

record UserBase =
  username :: string
  email :: string
  first_name :: "string option"
  last_name :: "string option"

record User = UserBase +
  uid :: nat
  hashed_password :: string
  role :: string
  is_active :: bool
  created_at :: int
  updated_at :: int

record UserCreate = UserBase +
  password :: string

text \<open>
  \<^verbatim>\<open>UserUpdate\<close>: every field is optional and pydantic remembers which fields the
  request body set. \<open>Unset\<close> is a field the body left out; \<open>Given v\<close> is a field the body
  set, to an explicit null (\<open>Given None\<close>) or to a value (\<open>Given (Some x)\<close>).
\<close>

datatype 'a upd = Unset | Given 'a

record UserUpdate =
  u_username :: "string option upd"
  u_email :: "string option upd"
  u_first_name :: "string option upd"
  u_last_name :: "string option upd"
  old_password :: "string option upd"
  new_password :: "string option upd"
  u_is_active :: "bool option upd"
  u_role :: "string option upd"

text \<open>The values of the dictionary that \<^verbatim>\<open>model_dump\<close> returns.\<close>

datatype pyval = PStr string | PBool bool | PNone

fun dump_opt_str :: "string option upd \<Rightarrow> pyval option" where
  "dump_opt_str Unset = None"
| "dump_opt_str (Given None) = Some PNone"
| "dump_opt_str (Given (Some s)) = Some (PStr s)"

fun dump_opt_bool :: "bool option upd \<Rightarrow> pyval option" where
  "dump_opt_bool Unset = None"
| "dump_opt_bool (Given None) = Some PNone"
| "dump_opt_bool (Given (Some b)) = Some (PBool b)"

text \<open>\<^verbatim>\<open>user_update.model_dump(exclude_unset=True)\<close>: only the fields the body set.\<close>

definition model_dump_exclude_unset :: "UserUpdate \<Rightarrow> (string \<rightharpoonup> pyval)" where
  "model_dump_exclude_unset u = (\<lambda>k.
     if k = ''username'' then dump_opt_str (u_username u)
     else if k = ''email'' then dump_opt_str (u_email u)
     else if k = ''first_name'' then dump_opt_str (u_first_name u)
     else if k = ''last_name'' then dump_opt_str (u_last_name u)
     else if k = ''old_password'' then dump_opt_str (old_password u)
     else if k = ''new_password'' then dump_opt_str (new_password u)
     else if k = ''is_active'' then dump_opt_bool (u_is_active u)
     else if k = ''role'' then dump_opt_str (u_role u)
     else None)"

text \<open>Python truthiness of \<^verbatim>\<open>d.get(k)\<close>: a missing key, \<^verbatim>\<open>None\<close>, the empty string and
  \<^verbatim>\<open>False\<close> are falsy.\<close>

fun truthy :: "pyval option \<Rightarrow> bool" where
  "truthy None = False"
| "truthy (Some PNone) = False"
| "truthy (Some (PStr s)) = (s \<noteq> [])"
| "truthy (Some (PBool b)) = b"

fun str_of :: "pyval option \<Rightarrow> string" where
  "str_of (Some (PStr s)) = s"
| "str_of _ = []"


section \<open>The persistence collaborator (app/db/session.py)\<close>

text \<open>
  The \<^verbatim>\<open>user\<close> table is the list of its rows. \<^verbatim>\<open>select(User).where(c).first()\<close> is the
  first row that satisfies \<open>c\<close>, \<^verbatim>\<open>session.get(User, i)\<close> the row with primary key \<open>i\<close>.
\<close>

type_synonym db = "User list"

definition select_first :: "(User \<Rightarrow> bool) \<Rightarrow> db \<Rightarrow> User option" where
  "select_first c rows = find c rows"

definition session_get :: "db \<Rightarrow> nat \<Rightarrow> User option" where
  "session_get rows i = find (\<lambda>r. uid r = i) rows"

text \<open>The primary key that the database gives a new row.\<close>

definition fresh_id :: "db \<Rightarrow> nat" where
  "fresh_id rows = Suc (fold max (map uid rows) 0)"

text \<open>\<^verbatim>\<open>session.add(user_db); session.commit(); session.refresh(user_db)\<close> of a new object.\<close>

definition commit_new :: "User \<Rightarrow> db \<Rightarrow> User \<times> db" where
  "commit_new user_db rows =
     (let stored = user_db\<lparr>uid := fresh_id rows\<rparr> in (stored, rows @ [stored]))"

text \<open>
  The \<^verbatim>\<open>before_flush\<close> hook \<^verbatim>\<open>update_timestamp\<close> stamps \<open>updated_at\<close> on every object of
  \<^verbatim>\<open>session.dirty\<close>; an object is dirty once an attribute of it has been set.
\<close>

definition update_timestamp :: "int \<Rightarrow> bool \<Rightarrow> User \<Rightarrow> User" where
  "update_timestamp now dirty instance =
     (if dirty then instance\<lparr>updated_at := now\<rparr> else instance)"


section \<open>The password hasher (app/utilities/encoders.py)\<close>

text \<open>
  passlib is a third-party library. \<^verbatim>\<open>pwd_context = CryptContext(schemes=["bcrypt"])\<close>
  is modelled by the contract of \<^verbatim>\<open>CryptContext.verify\<close>: it identifies the hash among
  the configured schemes and raises \<^verbatim>\<open>UnknownHashError\<close> when none claims it; otherwise
  it hands over to the scheme. bcrypt claims a hash by its prefix. The scheme itself
  (bcrypt's \<^verbatim>\<open>verify\<close> and \<^verbatim>\<open>hash\<close>) is a parameter: \<open>bv secret hash\<close> is the outcome of
  bcrypt's verification, which raises on a string it cannot parse, and \<open>bh secret\<close> is
  the salted hash it produces at this call.
\<close>

type_synonym bcrypt_verify = "string \<Rightarrow> string \<Rightarrow> exn + bool"
type_synonym bcrypt_hash = "string \<Rightarrow> string"

definition bcrypt_ident_values :: "string list" where
  "bcrypt_ident_values = [''$2$'', ''$2a$'', ''$2x$'', ''$2y$'', ''$2b$'']"

definition bcrypt_identify :: "string \<Rightarrow> bool" where
  "bcrypt_identify h = list_ex (\<lambda>i. take (length i) h = i) bcrypt_ident_values"

definition pwd_context_verify :: "bcrypt_verify \<Rightarrow> string \<Rightarrow> string \<Rightarrow> exn + bool" where
  "pwd_context_verify bv secret h =
     (if bcrypt_identify h then bv secret h else Inl UnknownHashError)"

definition verify_password :: "bcrypt_verify \<Rightarrow> string \<Rightarrow> string \<Rightarrow> exn + bool" where
  "verify_password bv plain_password hashed = pwd_context_verify bv plain_password hashed"

definition hash_password :: "bcrypt_hash \<Rightarrow> string \<Rightarrow> string" where
  "hash_password bh pw = bh pw"


section \<open>The token codec (app/utilities/encoders.py)\<close>

text \<open>
  PyJWT is a third-party library. A token string is modelled by what it parses to: a
  signed claim set \<open>JWS alg key payload\<close> (the algorithm of the header, the key the
  signature was made with, the claims), or a string that has no such structure.
  \<^verbatim>\<open>jwt.decode\<close> checks the structure, the algorithm and the signature, and then validates
  the claims; each failure is a subclass of \<^verbatim>\<open>InvalidTokenError\<close>, and every constructor
  of \<open>jwt_exn\<close> stands for one (\<open>OtherInvalidTokenError\<close> for those not named).

  The validation of the claims is a parameter: \<open>vc now payload\<close> is the error that PyJWT's
  validation raises for this payload at this time, or \<open>None\<close> when it accepts the
  payload. PyJWT raises \<^verbatim>\<open>ExpiredSignatureError\<close> there when the \<^verbatim>\<open>exp\<close> claim has been
  reached; which other claims it checks, and how it reads them, depends on its version.
\<close>

datatype jval = JStr string | JNum int

type_synonym claims = "string \<rightharpoonup> jval"

datatype jwt = JWS (jws_alg: string) (jws_key: string) (jws_payload: claims)
  | Malformed string

datatype jwt_exn =
    ExpiredSignatureError | InvalidSignatureError | DecodeError | InvalidAlgorithmError
  | ImmatureSignatureError | OtherInvalidTokenError

type_synonym validate_claims = "int \<Rightarrow> claims \<Rightarrow> jwt_exn option"

definition jwt_encode :: "claims \<Rightarrow> string \<Rightarrow> string \<Rightarrow> jwt" where
  "jwt_encode payload key algorithm = JWS algorithm key payload"

fun jwt_decode ::
    "validate_claims \<Rightarrow> int \<Rightarrow> jwt \<Rightarrow> string \<Rightarrow> string list \<Rightarrow> jwt_exn + claims" where
  "jwt_decode vc now (Malformed s) key algorithms = Inl DecodeError"
| "jwt_decode vc now (JWS a k payload) key algorithms =
     (if a \<notin> set algorithms then Inl InvalidAlgorithmError
      else if k \<noteq> key then Inl InvalidSignatureError
      else (case vc now payload of
              Some e \<Rightarrow> Inl e
            | None \<Rightarrow> Inr payload))"

definition ALGORITHM :: string where
  "ALGORITHM = ''HS256''"

text \<open>\<open>SECRET_KEY\<close> is read from the environment and \<open>now\<close> from the clock: both are
  parameters.\<close>

definition encode_token :: "string \<Rightarrow> int \<Rightarrow> claims \<Rightarrow> int \<Rightarrow> jwt" where
  "encode_token SECRET_KEY now data expires_delta =
     (let to_encode = data;
          expire = now + expires_delta;
          to_encode = to_encode(''exp'' \<mapsto> JNum expire)
      in jwt_encode to_encode SECRET_KEY ALGORITHM)"

definition decode_token :: "validate_claims \<Rightarrow> string \<Rightarrow> int \<Rightarrow> jwt \<Rightarrow> exn + claims" where
  "decode_token vc SECRET_KEY now token =
     (case jwt_decode vc now token SECRET_KEY [ALGORITHM] of
        Inr payload \<Rightarrow> Inr payload
      | Inl ExpiredSignatureError \<Rightarrow> Inl TOKEN_EXPIRE_EXCEPTION
      | Inl _ \<Rightarrow> Inl CREDENTIALS_EXCEPTION)"


section \<open>Dependencies (app/utilities/dependencies.py)\<close>

definition ACCESS_TOKEN_EXPIRE_MINUTES :: int where
  "ACCESS_TOKEN_EXPIRE_MINUTES = 15"

definition REFRESH_TOKEN_EXPIRE_DAYS :: int where
  "REFRESH_TOKEN_EXPIRE_DAYS = 7"

definition timedelta_minutes :: "int \<Rightarrow> int" where
  "timedelta_minutes m = m * 60"

definition timedelta_days :: "int \<Rightarrow> int" where
  "timedelta_days d = d * 86400"

definition get_user :: "string \<Rightarrow> db \<Rightarrow> exn + User" where
  "get_user name session =
     (case select_first (\<lambda>r. username r = name) session of
        None \<Rightarrow> Inl (HTTPException 404 ''User not found'' None)
      | Some user \<Rightarrow> Inr user)"

definition get_user_by_email :: "db \<Rightarrow> string \<Rightarrow> exn + User" where
  "get_user_by_email session mail =
     (case select_first (\<lambda>r. email r = mail) session of
        None \<Rightarrow> Inl (HTTPException 404 ''User not found'' None)
      | Some user \<Rightarrow> Inr user)"

definition authenticate_user :: "bcrypt_verify \<Rightarrow> string \<Rightarrow> string \<Rightarrow> db \<Rightarrow> exn + User" where
  "authenticate_user bv name pw session =
     (case get_user name session of
        Inl e \<Rightarrow> Inl e
      | Inr user \<Rightarrow>
          if \<not> is_active user then Inl (HTTPException 423 ''Inactive user.'' None)
          else (case verify_password bv pw (hashed_password user) of
                  Inl e \<Rightarrow> Inl e
                | Inr ok \<Rightarrow> if \<not> ok then Inl CREDENTIALS_EXCEPTION else Inr user))"

definition get_current_active_user :: "User \<Rightarrow> exn + User" where
  "get_current_active_user current_user =
     (if \<not> is_active current_user then Inl (HTTPException 400 ''Inactive user'' None)
      else Inr current_user)"

text \<open>\<^verbatim>\<open>re.search\<close> of a one-character class: some character of the string is in it.\<close>

definition in_range :: "char \<Rightarrow> char \<Rightarrow> char \<Rightarrow> bool" where
  "in_range lo hi c = ((of_char lo :: nat) \<le> of_char c \<and> (of_char c :: nat) \<le> of_char hi)"

definition re_search_range :: "char \<Rightarrow> char \<Rightarrow> string \<Rightarrow> bool" where
  "re_search_range lo hi p = list_ex (in_range lo hi) p"

definition re_search_set :: "string \<Rightarrow> string \<Rightarrow> bool" where
  "re_search_set cs p = list_ex (\<lambda>c. c \<in> set cs) p"

definition validation_rules :: "((string \<Rightarrow> bool) \<times> string) list" where
  "validation_rules =
     [(\<lambda>p. length p \<ge> 6, ''Password must be at least 6 characters long.''),
      (re_search_range CHR ''A'' CHR ''Z'',
         ''Password must contain at least one uppercase letter.''),
      (re_search_range CHR ''a'' CHR ''z'',
         ''Password must contain at least one lowercase letter.''),
      (re_search_range CHR ''0'' CHR ''9'',
         ''Password must contain at least one number.''),
      (re_search_set ''@$!%*?&#'',
         ''Password must contain at least one special character.'')]"

text \<open>The \<^verbatim>\<open>for\<close> loop over the rules: the first rule that fails raises.\<close>

fun check_rules :: "((string \<Rightarrow> bool) \<times> string) list \<Rightarrow> string \<Rightarrow> exn + unit" where
  "check_rules [] pw = Inr ()"
| "check_rules ((rule, error_message) # rest) pw =
     (if \<not> rule pw then Inl (HTTPException 400 error_message None)
      else check_rules rest pw)"

definition validate_password :: "string \<Rightarrow> exn + unit" where
  "validate_password pw = check_rules validation_rules pw"

text \<open>\<^verbatim>\<open>RoleChecker(allowed_roles).__call__(user)\<close>.\<close>

definition RoleChecker :: "string list \<Rightarrow> User \<Rightarrow> exn + User" where
  "RoleChecker allowed_roles user =
     (if role user \<in> set allowed_roles \<or> ''*'' \<in> set allowed_roles then Inr user
      else Inl (HTTPException 403 ''You don't have enough permissions'' None))"


section \<open>The authentication endpoints (app/routers/auth.py)\<close>

text \<open>
  A handler takes the table and returns its result with the table after the request.
  The dependency \<^verbatim>\<open>RoleChecker\<close> runs before the body and is not part of it.
\<close>

text \<open>\<^verbatim>\<open>if not user\<close>: a model object has neither \<^verbatim>\<open>__bool__\<close> nor \<^verbatim>\<open>__len__\<close>, so it is
  truthy.\<close>

definition object_truthy :: "User \<Rightarrow> bool" where
  "object_truthy user = True"

definition create_user :: "bcrypt_hash \<Rightarrow> int \<Rightarrow> UserCreate \<Rightarrow> db \<Rightarrow> (exn + User) \<times> db" where
  "create_user bh now user session =
     (if select_first (\<lambda>r. username r = username user) session \<noteq> None
      then (Inl (HTTPException 409 ''L'utilisateur existe dejas.'' None), session)
      else if select_first (\<lambda>r. email r = email user) session \<noteq> None
      then (Inl (HTTPException 409 ''l'Email est deja utilise.'' None), session)
      else (case validate_password (password user) of
              Inl e \<Rightarrow> (Inl e, session)
            | Inr _ \<Rightarrow>
                let hashed = hash_password bh (password user);
                    user_db = \<lparr>username = username user, email = email user,
                               first_name = first_name user, last_name = last_name user,
                               uid = 0, hashed_password = hashed,
                               role = RoleType_value USER, is_active = True,
                               created_at = now, updated_at = now\<rparr>;
                    (stored, session') = commit_new user_db session
                in (Inr stored, session')))"

record Token =
  access_token :: jwt
  refresh_token_value :: jwt
  token_type :: string

definition issue_tokens :: "string \<Rightarrow> int \<Rightarrow> User \<Rightarrow> Token" where
  "issue_tokens SECRET_KEY now user =
     \<lparr>access_token =
        encode_token SECRET_KEY now
          [''sub'' \<mapsto> JStr (username user), ''role'' \<mapsto> JStr (role user)]
          (timedelta_minutes ACCESS_TOKEN_EXPIRE_MINUTES),
      refresh_token_value =
        encode_token SECRET_KEY now [''sub'' \<mapsto> JStr (username user)]
          (timedelta_days REFRESH_TOKEN_EXPIRE_DAYS),
      token_type = ''bearer''\<rparr>"

definition login_for_access_token ::
    "bcrypt_verify \<Rightarrow> string \<Rightarrow> int \<Rightarrow> string \<Rightarrow> string \<Rightarrow> db \<Rightarrow> exn + Token" where
  "login_for_access_token bv SECRET_KEY now form_username form_password session =
     (case authenticate_user bv form_username form_password session of
        Inl e \<Rightarrow> Inl e
      | Inr user \<Rightarrow>
          if \<not> object_truthy user
          then Inl (HTTPException 401 ''Informations utilisateurs invalides.'' None)
          else Inr (issue_tokens SECRET_KEY now user))"

text \<open>
  \<^verbatim>\<open>get_user(payload.get("sub"), session)\<close>: a payload with no string under \<^verbatim>\<open>"sub"\<close>
  gives a value that equals no username, so \<^verbatim>\<open>get_user\<close> raises as for an unknown name.
\<close>

definition refresh_token ::
    "validate_claims \<Rightarrow> string \<Rightarrow> int \<Rightarrow> jwt \<Rightarrow> db \<Rightarrow> exn + Token" where
  "refresh_token vc SECRET_KEY now refresh session =
     (case decode_token vc SECRET_KEY now refresh of
        Inl e \<Rightarrow> Inl e
      | Inr payload \<Rightarrow>
          (case (case payload ''sub'' of
                   Some (JStr sub) \<Rightarrow> get_user sub session
                 | _ \<Rightarrow> Inl (HTTPException 404 ''User not found'' None)) of
             Inl e \<Rightarrow> Inl e
           | Inr user \<Rightarrow>
               if \<not> object_truthy user
               then Inl (HTTPException 401 ''Invalid refresh token.'' None)
               else Inr (issue_tokens SECRET_KEY now user)))"


section \<open>The directory endpoints (app/routers/users.py)\<close>

definition get_user_by_id :: "db \<Rightarrow> nat \<Rightarrow> exn + User" where
  "get_user_by_id session user_id =
     (case session_get session user_id of
        None \<Rightarrow> Inl (HTTPException 404 ''User not found.'' None)
      | Some user \<Rightarrow> Inr user)"

text \<open>
  \<^verbatim>\<open>user.sqlmodel_update(d)\<close> sets every key of \<open>d\<close> that is a field of \<^verbatim>\<open>User\<close> and skips
  the others (\<^verbatim>\<open>old_password\<close>, \<^verbatim>\<open>new_password\<close>). \<open>setattr\<close> is the assignment of one
  attribute of the loaded object in memory; what the database makes of the object is
  decided at the commit below. No key of a \<^verbatim>\<open>UserUpdate\<close> names \<^verbatim>\<open>id\<close>, \<^verbatim>\<open>created_at\<close> or
  \<^verbatim>\<open>updated_at\<close>. A \<^verbatim>\<open>None\<close> assigned to an attribute whose column is NOT NULL is not
  represented in the object: the commit refuses it, and the object is not seen again.
\<close>

definition User_fields :: "string list" where
  "User_fields = [''username'', ''email'', ''first_name'', ''last_name'', ''id'',
                  ''hashed_password'', ''role'', ''is_active'', ''created_at'',
                  ''updated_at'']"

fun setattr :: "User \<Rightarrow> string \<Rightarrow> pyval \<Rightarrow> User" where
  "setattr user k (PStr s) =
     (if k = ''username'' then user\<lparr>username := s\<rparr>
      else if k = ''email'' then user\<lparr>email := s\<rparr>
      else if k = ''first_name'' then user\<lparr>first_name := Some s\<rparr>
      else if k = ''last_name'' then user\<lparr>last_name := Some s\<rparr>
      else if k = ''hashed_password'' then user\<lparr>hashed_password := s\<rparr>
      else if k = ''role'' then user\<lparr>role := s\<rparr>
      else user)"
| "setattr user k (PBool b) =
     (if k = ''is_active'' then user\<lparr>is_active := b\<rparr> else user)"
| "setattr user k PNone =
     (if k = ''first_name'' then user\<lparr>first_name := None\<rparr>
      else if k = ''last_name'' then user\<lparr>last_name := None\<rparr>
      else user)"

text \<open>The body of the loop of \<^verbatim>\<open>sqlmodel_update\<close> for one field of the model.\<close>

definition set_if_present :: "(string \<rightharpoonup> pyval) \<Rightarrow> string \<Rightarrow> User \<Rightarrow> User" where
  "set_if_present d k u = (case d k of None \<Rightarrow> u | Some v \<Rightarrow> setattr u k v)"

definition sqlmodel_update :: "User \<Rightarrow> (string \<rightharpoonup> pyval) \<Rightarrow> User" where
  "sqlmodel_update user d = fold (set_if_present d) User_fields user"

definition is_dirty :: "(string \<rightharpoonup> pyval) \<Rightarrow> bool" where
  "is_dirty d = list_ex (\<lambda>k. d k \<noteq> None) User_fields"

text \<open>
  \<^verbatim>\<open>session.add(user); session.commit(); session.refresh(user)\<close> of a loaded object whose
  attributes \<open>d\<close> have been set. The database refuses the statement, and the
  transaction is rolled back, when
  \<^item> a NOT NULL column is set to null (a field of \<^verbatim>\<open>User\<close> that is not optional);
  \<^item> \<open>role\<close> is set to a string that the Enum column does not take (PostgreSQL, the
    engine that \<^verbatim>\<open>db/session.py\<close> configures, refuses it in the statement);
  \<^item> \<open>username\<close> is set to the username of another row (\<^verbatim>\<open>unique=True\<close>);
  \<^item> the engine has an objection of its own to the row, for instance to a string
    longer than the declared length. This verdict depends on the engine and is the
    parameter \<open>engine\<close>.
  Otherwise the row is written and read back, \<open>role\<close> through the Enum column.
\<close>

type_synonym engine = "db \<Rightarrow> User \<Rightarrow> bool"

definition NOT_NULL_columns :: "string list" where
  "NOT_NULL_columns = [''username'', ''email'', ''hashed_password'', ''role'', ''is_active'']"

definition refused :: "engine \<Rightarrow> (string \<rightharpoonup> pyval) \<Rightarrow> User \<Rightarrow> db \<Rightarrow> bool" where
  "refused engine d user rows =
     (list_ex (\<lambda>k. d k = Some PNone) NOT_NULL_columns
      \<or> (d ''role'' \<noteq> None \<and> role_column (role user) = None)
      \<or> (d ''username'' \<noteq> None
          \<and> list_ex (\<lambda>r. uid r \<noteq> uid user \<and> username r = username user) rows)
      \<or> engine rows user)"

definition commit_loaded ::
    "engine \<Rightarrow> int \<Rightarrow> (string \<rightharpoonup> pyval) \<Rightarrow> User \<Rightarrow> db \<Rightarrow> (exn + User) \<times> db" where
  "commit_loaded engine now d user rows =
     (if refused engine d user rows then (Inl DBAPIError, rows)
      else
        let loaded = (if d ''role'' \<noteq> None then user\<lparr>role := role_read_back (role user)\<rparr>
                      else user);
            stored = update_timestamp now (is_dirty d) loaded
        in (Inr stored, map (\<lambda>r. if uid r = uid stored then stored else r) rows))"

definition update_user ::
    "engine \<Rightarrow> bcrypt_hash \<Rightarrow> bcrypt_verify \<Rightarrow> int \<Rightarrow> nat \<Rightarrow> UserUpdate \<Rightarrow> db
      \<Rightarrow> (exn + User) \<times> db" where
  "update_user engine bh bv now user_id user_update session =
     (case get_user_by_id session user_id of
        Inl e \<Rightarrow> (Inl e, session)
      | Inr user \<Rightarrow>
          let user_update_data = model_dump_exclude_unset user_update;
              checked =
                (if truthy (user_update_data ''old_password'')
                    \<and> truthy (user_update_data ''new_password'')
                 then (case verify_password bv (str_of (user_update_data ''old_password''))
                               (hashed_password user) of
                         Inl e \<Rightarrow> Inl e
                       | Inr ok \<Rightarrow>
                           if ok
                           then Inr (user_update_data(''hashed_password'' \<mapsto>
                                  PStr (hash_password bh
                                         (str_of (user_update_data ''new_password'')))))
                           else Inl CREDENTIALS_EXCEPTION)
                 else Inr user_update_data)
          in (case checked of
                Inl e \<Rightarrow> (Inl e, session)
              | Inr d \<Rightarrow> commit_loaded engine now d (sqlmodel_update user d) session))"


section \<open>Concrete data for the evaluations\<close>

text \<open>
  Stand-ins for the parameters (bcrypt, a database engine with no objection of its own,
  PyJWT's validation of a payload whose only checked claims are a numeric \<^verbatim>\<open>nbf\<close>,
  which PyJWT validates first, and a numeric \<^verbatim>\<open>exp\<close>), two stored users, and the requests
  and tokens of the evaluations. They are used only where
  a theorem is evaluated on a concrete input; the theorems themselves hold for every
  value of the parameters and every table.
\<close>

definition toy_bcrypt_hash :: bcrypt_hash where
  "toy_bcrypt_hash pw = ''$2b$12$'' @ rev pw"

definition toy_bcrypt_verify :: bcrypt_verify where
  "toy_bcrypt_verify secret h = Inr (h = toy_bcrypt_hash secret)"

definition alice :: User where
  "alice = \<lparr>username = ''alice'', email = ''alice@example.org'', first_name = None,
            last_name = None, uid = 1, hashed_password = toy_bcrypt_hash ''Str0ng!Pw'',
            role = RoleType_value ADMIN, is_active = True, created_at = 0, updated_at = 0\<rparr>"

definition bob :: User where
  "bob = \<lparr>username = ''bob'', email = ''bob@example.org'', first_name = Some ''Bob'',
          last_name = None, uid = 2, hashed_password = toy_bcrypt_hash ''S3cret#x'',
          role = RoleType_value USER, is_active = False, created_at = 0, updated_at = 0\<rparr>"

definition dup_alice :: UserCreate where
  "dup_alice = \<lparr>username = ''alice'', email = ''other@example.org'', first_name = None,
                last_name = None, password = ''An0ther!Pw''\<rparr>"

definition alice_demoted :: User where
  "alice_demoted = alice\<lparr>role := RoleType_value USER\<rparr>"

definition no_objection :: engine where
  "no_objection rows row = False"

definition exp_validation :: validate_claims where
  "exp_validation now payload =
     (case payload ''exp'' of
        Some (JNum e) \<Rightarrow> if e \<le> now then Some ExpiredSignatureError else None
      | _ \<Rightarrow> None)"

definition nbf_exp_validation :: validate_claims where
  "nbf_exp_validation now payload =
     (case payload ''nbf'' of
        Some (JNum n) \<Rightarrow> if now < n then Some ImmatureSignatureError
                         else exp_validation now payload
      | _ \<Rightarrow> exp_validation now payload)"

definition patch_bob :: UserUpdate where
  "patch_bob = \<lparr>u_username = Unset, u_email = Given (Some ''bob@new.example.org''),
                 u_first_name = Given None, u_last_name = Unset, old_password = Unset,
                 new_password = Given (Some ''abc''), u_is_active = Given (Some True),
                 u_role = Given (Some ''TESTER'')\<rparr>"

definition bob_patched :: User where
  "bob_patched = bob\<lparr>email := ''bob@new.example.org'', first_name := None,
                      role := ''Testeur'', is_active := True, updated_at := 7\<rparr>"

definition take_alice_name :: UserUpdate where
  "take_alice_name = \<lparr>u_username = Given (Some ''alice''), u_email = Unset,
                       u_first_name = Unset, u_last_name = Unset, old_password = Unset,
                       new_password = Given (Some ''abc''), u_is_active = Unset,
                       u_role = Unset\<rparr>"

definition unknown_role :: UserUpdate where
  "unknown_role = \<lparr>u_username = Unset, u_email = Unset, u_first_name = Unset,
                    u_last_name = Unset, old_password = Unset,
                    new_password = Given (Some ''abc''), u_is_active = Unset,
                    u_role = Given (Some ''Hacker'')\<rparr>"

definition weak_change :: UserUpdate where
  "weak_change = \<lparr>u_username = Unset, u_email = Unset, u_first_name = Unset,
                   u_last_name = Unset, old_password = Given (Some ''Str0ng!Pw''),
                   new_password = Given (Some ''abc''), u_is_active = Unset, u_role = Unset\<rparr>"

definition stale_refresh :: jwt where
  "stale_refresh =
     encode_token ''k'' 1000 [''sub'' \<mapsto> JStr ''carol''] (timedelta_days REFRESH_TOKEN_EXPIRE_DAYS)"

definition alice_weak :: User where
  "alice_weak = alice\<lparr>hashed_password := toy_bcrypt_hash ''abc'', updated_at := 7\<rparr>"


section \<open>Auxiliary facts\<close>

lemma char_in_range_iff:
  assumes cs: "map char_of [lo..<up] = cs" and lo: "lo = of_char a" and up: "up = Suc (of_char b)"
  shows "in_range a b c \<longleftrightarrow> c \<in> set cs"
proof
  assume "in_range a b c"
  then have "(of_char a :: nat) \<le> of_char c" and "(of_char c :: nat) \<le> of_char b"
    by (simp_all add: in_range_def)
  then have "lo \<le> (of_char c :: nat)" and "(of_char c :: nat) < up"
    unfolding lo up by linarith+
  then have "(of_char c :: nat) \<in> set [lo..<up]" by simp
  then have "char_of (of_char c :: nat) \<in> char_of ` set [lo..<up]" by blast
  then have "c \<in> set (map char_of [lo..<up])" by simp
  then show "c \<in> set cs" unfolding cs .
next
  assume "c \<in> set cs"
  then have "c \<in> set (map char_of [lo..<up])" unfolding cs .
  then obtain n where n: "lo \<le> n" "n < up" "c = char_of n" by auto
  have b256: "(of_char b :: nat) < 256" by simp
  have "n < Suc (of_char b)" using n(2) unfolding up .
  with b256 have "n < 256" by linarith
  then have "(of_char c :: nat) = n" using n(3) by simp
  moreover have "of_char a \<le> n" and "n \<le> of_char b" using n(1,2) unfolding lo up by linarith+
  ultimately show "in_range a b c" unfolding in_range_def by simp
qed

lemma upper_iff: "in_range CHR ''A'' CHR ''Z'' c \<longleftrightarrow> c \<in> set ''ABCDEFGHIJKLMNOPQRSTUVWXYZ''"
  by (rule char_in_range_iff[where lo=65 and up=91]) (code_simp, simp_all)

lemma lower_iff: "in_range CHR ''a'' CHR ''z'' c \<longleftrightarrow> c \<in> set ''abcdefghijklmnopqrstuvwxyz''"
  by (rule char_in_range_iff[where lo=97 and up=123]) (code_simp, simp_all)

lemma digit_iff: "in_range CHR ''0'' CHR ''9'' c \<longleftrightarrow> c \<in> set ''0123456789''"
  by (rule char_in_range_iff[where lo=48 and up=58]) (code_simp, simp_all)

lemma select_first_found:
  "select_first c rows \<noteq> None \<longleftrightarrow> (\<exists>r \<in> set rows. c r)"
  by (auto simp: select_first_def find_None_iff)






lemma get_user_username: "get_user name session = Inr user \<Longrightarrow> username user = name"
  using find_Some_iff [of "\<lambda>r. username r = name" session user]
  by (auto simp: get_user_def select_first_def split: option.splits)

lemma authenticate_user_username:
  "authenticate_user bv name pw session = Inr user \<Longrightarrow> username user = name"
  by (auto simp: authenticate_user_def dest: get_user_username split: sum.splits if_splits)

lemma issue_tokens_refresh_payload:
  "jws_payload (refresh_token_value (issue_tokens K now user)) =
     [''sub'' \<mapsto> JStr (username user),
      ''exp'' \<mapsto> JNum (now + timedelta_days REFRESH_TOKEN_EXPIRE_DAYS)]"
  by (simp add: issue_tokens_def encode_token_def jwt_encode_def)

lemma issue_tokens_access_payload:
  "jws_payload (access_token (issue_tokens K now user)) =
     [''sub'' \<mapsto> JStr (username user), ''role'' \<mapsto> JStr (role user),
      ''exp'' \<mapsto> JNum (now + timedelta_minutes ACCESS_TOKEN_EXPIRE_MINUTES)]"
  by (simp add: issue_tokens_def encode_token_def jwt_encode_def)

lemma login_ok:
  "login_for_access_token bv K now name pw session = Inr t \<Longrightarrow>
     \<exists>user. authenticate_user bv name pw session = Inr user \<and> t = issue_tokens K now user"
  by (auto simp: login_for_access_token_def object_truthy_def split: sum.splits)

lemma refresh_ok:
  "refresh_token vc K now r session = Inr t \<Longrightarrow>
     \<exists>payload sub user. decode_token vc K now r = Inr payload \<and> payload ''sub'' = Some (JStr sub)
        \<and> get_user sub session = Inr user \<and> t = issue_tokens K now user"
  by (auto simp: refresh_token_def object_truthy_def split: sum.splits option.splits jval.splits)

lemma setattr_hashed_password:
  "hashed_password (setattr u k v) =
     (if k = ''hashed_password'' then (case v of PStr s \<Rightarrow> s | _ \<Rightarrow> hashed_password u)
      else hashed_password u)"
  by (cases v) simp_all

lemma setattr_username:
  "username (setattr u k v) =
     (if k = ''username'' then (case v of PStr s \<Rightarrow> s | _ \<Rightarrow> username u) else username u)"
  by (cases v) simp_all

lemma setattr_email:
  "email (setattr u k v) =
     (if k = ''email'' then (case v of PStr s \<Rightarrow> s | _ \<Rightarrow> email u) else email u)"
  by (cases v) simp_all

lemma setattr_first_name:
  "first_name (setattr u k v) =
     (if k = ''first_name''
      then (case v of PStr s \<Rightarrow> Some s | PNone \<Rightarrow> None | _ \<Rightarrow> first_name u)
      else first_name u)"
  by (cases v) simp_all

lemma setattr_last_name:
  "last_name (setattr u k v) =
     (if k = ''last_name''
      then (case v of PStr s \<Rightarrow> Some s | PNone \<Rightarrow> None | _ \<Rightarrow> last_name u)
      else last_name u)"
  by (cases v) simp_all

lemma setattr_role:
  "role (setattr u k v) =
     (if k = ''role'' then (case v of PStr s \<Rightarrow> s | _ \<Rightarrow> role u) else role u)"
  by (cases v) simp_all

lemma setattr_is_active:
  "is_active (setattr u k v) =
     (if k = ''is_active'' then (case v of PBool b \<Rightarrow> b | _ \<Rightarrow> is_active u)
      else is_active u)"
  by (cases v) simp_all

lemma setattr_fixed:
  "uid (setattr u k v) = uid u"
  "created_at (setattr u k v) = created_at u"
  "updated_at (setattr u k v) = updated_at u"
  by (cases v; simp)+

lemma sqlmodel_update_steps:
  "sqlmodel_update user d =
     set_if_present d ''updated_at'' (set_if_present d ''created_at'' (set_if_present d ''is_active'' (set_if_present d ''role''
       (set_if_present d ''hashed_password'' (set_if_present d ''id'' (set_if_present d ''last_name''
         (set_if_present d ''first_name'' (set_if_present d ''email'' (set_if_present d ''username'' user)))))))))"
  by (simp add: sqlmodel_update_def User_fields_def set_if_present_def)

lemma set_if_present_field:
  "hashed_password (set_if_present d k u) =
     (if k = ''hashed_password''
      then (case d k of Some (PStr s) \<Rightarrow> s | _ \<Rightarrow> hashed_password u)
      else hashed_password u)"
  "username (set_if_present d k u) =
     (if k = ''username'' then (case d k of Some (PStr s) \<Rightarrow> s | _ \<Rightarrow> username u)
      else username u)"
  "email (set_if_present d k u) =
     (if k = ''email'' then (case d k of Some (PStr s) \<Rightarrow> s | _ \<Rightarrow> email u)
      else email u)"
  "first_name (set_if_present d k u) =
     (if k = ''first_name''
      then (case d k of Some (PStr s) \<Rightarrow> Some s | Some PNone \<Rightarrow> None | _ \<Rightarrow> first_name u)
      else first_name u)"
  "last_name (set_if_present d k u) =
     (if k = ''last_name''
      then (case d k of Some (PStr s) \<Rightarrow> Some s | Some PNone \<Rightarrow> None | _ \<Rightarrow> last_name u)
      else last_name u)"
  "role (set_if_present d k u) =
     (if k = ''role'' then (case d k of Some (PStr s) \<Rightarrow> s | _ \<Rightarrow> role u)
      else role u)"
  "is_active (set_if_present d k u) =
     (if k = ''is_active'' then (case d k of Some (PBool b) \<Rightarrow> b | _ \<Rightarrow> is_active u)
      else is_active u)"
  "uid (set_if_present d k u) = uid u"
  "created_at (set_if_present d k u) = created_at u"
  "updated_at (set_if_present d k u) = updated_at u"
  by (simp_all add: set_if_present_def setattr_hashed_password setattr_username setattr_email
      setattr_first_name setattr_last_name setattr_role setattr_is_active setattr_fixed
      split: option.splits pyval.splits)

lemma sqlmodel_update_fields:
  "hashed_password (sqlmodel_update user d) =
     (case d ''hashed_password'' of Some (PStr s) \<Rightarrow> s | _ \<Rightarrow> hashed_password user)"
  "username (sqlmodel_update user d) =
     (case d ''username'' of Some (PStr s) \<Rightarrow> s | _ \<Rightarrow> username user)"
  "email (sqlmodel_update user d) =
     (case d ''email'' of Some (PStr s) \<Rightarrow> s | _ \<Rightarrow> email user)"
  "first_name (sqlmodel_update user d) =
     (case d ''first_name'' of Some (PStr s) \<Rightarrow> Some s | Some PNone \<Rightarrow> None
      | _ \<Rightarrow> first_name user)"
  "last_name (sqlmodel_update user d) =
     (case d ''last_name'' of Some (PStr s) \<Rightarrow> Some s | Some PNone \<Rightarrow> None
      | _ \<Rightarrow> last_name user)"
  "role (sqlmodel_update user d) =
     (case d ''role'' of Some (PStr s) \<Rightarrow> s | _ \<Rightarrow> role user)"
  "is_active (sqlmodel_update user d) =
     (case d ''is_active'' of Some (PBool b) \<Rightarrow> b | _ \<Rightarrow> is_active user)"
  "uid (sqlmodel_update user d) = uid user"
  "created_at (sqlmodel_update user d) = created_at user"
  "updated_at (sqlmodel_update user d) = updated_at user"
  by (simp_all add: sqlmodel_update_steps set_if_present_field split: option.splits pyval.splits)

lemma get_user_by_id_uid: "get_user_by_id session user_id = Inr user \<Longrightarrow> uid user = user_id"
  using find_Some_iff [of "\<lambda>r. uid r = user_id" session user]
  by (auto simp: get_user_by_id_def session_get_def split: option.splits)

lemma model_dump_keys:
  "model_dump_exclude_unset u ''username'' = dump_opt_str (u_username u)"
  "model_dump_exclude_unset u ''email'' = dump_opt_str (u_email u)"
  "model_dump_exclude_unset u ''first_name'' = dump_opt_str (u_first_name u)"
  "model_dump_exclude_unset u ''last_name'' = dump_opt_str (u_last_name u)"
  "model_dump_exclude_unset u ''old_password'' = dump_opt_str (old_password u)"
  "model_dump_exclude_unset u ''new_password'' = dump_opt_str (new_password u)"
  "model_dump_exclude_unset u ''is_active'' = dump_opt_bool (u_is_active u)"
  "model_dump_exclude_unset u ''role'' = dump_opt_str (u_role u)"
  "model_dump_exclude_unset u ''hashed_password'' = None"
  by (simp_all add: model_dump_exclude_unset_def)

lemma dump_str_case:
  "(case dump_opt_str x of Some (PStr s) \<Rightarrow> s | _ \<Rightarrow> a) =
     (case x of Given (Some s) \<Rightarrow> s | _ \<Rightarrow> a)"
  by (cases x rule: dump_opt_str.cases) simp_all

lemma dump_bool_case:
  "(case dump_opt_bool y of Some (PBool b) \<Rightarrow> b | _ \<Rightarrow> c) =
     (case y of Given (Some b) \<Rightarrow> b | _ \<Rightarrow> c)"
  by (cases y rule: dump_opt_bool.cases) simp_all

lemma dump_opt_str_case:
  "(case dump_opt_str z of Some (PStr s) \<Rightarrow> Some s | Some PNone \<Rightarrow> None | _ \<Rightarrow> e) =
     (case z of Unset \<Rightarrow> e | Given v \<Rightarrow> v)"
  by (cases z rule: dump_opt_str.cases) simp_all

lemmas dump_cases = dump_str_case dump_bool_case dump_opt_str_case

lemma dump_opt_str_null: "dump_opt_str x = Some PNone \<longleftrightarrow> x = Given None"
  by (cases x rule: dump_opt_str.cases) simp_all

lemma dump_opt_str_unset: "dump_opt_str x = None \<longleftrightarrow> x = Unset"
  by (cases x rule: dump_opt_str.cases) simp_all

lemma update_user_unchecked:
  assumes u: "get_user_by_id session user_id = Inr user"
    and nt: "\<not> (truthy (model_dump_exclude_unset upd ''old_password'')
               \<and> truthy (model_dump_exclude_unset upd ''new_password''))"
  shows "update_user engine bh bv now user_id upd session =
           commit_loaded engine now (model_dump_exclude_unset upd)
             (sqlmodel_update user (model_dump_exclude_unset upd)) session"
proof -
  have f: "(truthy (model_dump_exclude_unset upd ''old_password'')
             \<and> truthy (model_dump_exclude_unset upd ''new_password'')) = False"
    using nt by simp
  show ?thesis
    unfolding update_user_def Let_def f by (simp add: u)
qed

lemma update_user_checked:
  assumes u: "get_user_by_id session user_id = Inr user"
    and old: "old_password upd = Given (Some old)" and new: "new_password upd = Given (Some new)"
    and ne: "old \<noteq> []" "new \<noteq> []"
    and v: "verify_password bv old (hashed_password user) = Inr True"
  shows "update_user engine bh bv now user_id upd session =
           commit_loaded engine now
             ((model_dump_exclude_unset upd)(''hashed_password'' \<mapsto> PStr (hash_password bh new)))
             (sqlmodel_update user
               ((model_dump_exclude_unset upd)(''hashed_password'' \<mapsto> PStr (hash_password bh new))))
             session"
proof -
  have t: "(truthy (model_dump_exclude_unset upd ''old_password'')
           \<and> truthy (model_dump_exclude_unset upd ''new_password'')) = True"
    using old new ne by (simp add: model_dump_keys)
  have so: "str_of (model_dump_exclude_unset upd ''old_password'') = old"
    and sn: "str_of (model_dump_exclude_unset upd ''new_password'') = new"
    using old new by (simp_all add: model_dump_keys)
  show ?thesis
    unfolding update_user_def Let_def t by (simp add: u so sn v)
qed

lemma commit_loaded_outcome:
  assumes "fst (commit_loaded engine now d user rows) \<noteq> Inl DBAPIError"
  shows "\<not> refused engine d user rows"
    and "commit_loaded engine now d user rows =
           (Inr (update_timestamp now (is_dirty d)
                  (if d ''role'' \<noteq> None then user\<lparr>role := role_read_back (role user)\<rparr> else user)),
            map (\<lambda>r. if uid r = uid user
                      then update_timestamp now (is_dirty d)
                             (if d ''role'' \<noteq> None then user\<lparr>role := role_read_back (role user)\<rparr>
                              else user)
                      else r) rows)"
  using assms by (auto simp: commit_loaded_def Let_def update_timestamp_def split: if_splits)

lemma refused_null_role:
  "\<not> refused engine d user rows \<Longrightarrow> d ''role'' \<noteq> Some PNone"
  by (auto simp: refused_def NOT_NULL_columns_def)

lemma update_timestamp_fields:
  "hashed_password (update_timestamp now b u) = hashed_password u"
  "username (update_timestamp now b u) = username u"
  "email (update_timestamp now b u) = email u"
  "first_name (update_timestamp now b u) = first_name u"
  "last_name (update_timestamp now b u) = last_name u"
  "role (update_timestamp now b u) = role u"
  "is_active (update_timestamp now b u) = is_active u"
  "uid (update_timestamp now b u) = uid u"
  "created_at (update_timestamp now b u) = created_at u"
  by (simp_all add: update_timestamp_def)

lemma eval_patch_bob:
  "update_user no_objection toy_bcrypt_hash toy_bcrypt_verify 7 2 patch_bob [alice, bob] =
     (Inr bob_patched, [alice, bob_patched])"
  by (simp add: update_user_def get_user_by_id_def session_get_def commit_loaded_def refused_def
      NOT_NULL_columns_def role_read_back_def role_column_def no_objection_def
      update_timestamp_def is_dirty_def sqlmodel_update_def set_if_present_def User_fields_def
      model_dump_exclude_unset_def patch_bob_def bob_patched_def alice_def bob_def Let_def)

lemma eval_weak_change:
  "update_user no_objection toy_bcrypt_hash toy_bcrypt_verify 7 1 weak_change [alice, bob] =
     (Inr alice_weak, [alice_weak, bob])"
  by (simp add: update_user_def get_user_by_id_def session_get_def commit_loaded_def refused_def
      NOT_NULL_columns_def no_objection_def
      update_timestamp_def is_dirty_def sqlmodel_update_def set_if_present_def User_fields_def
      model_dump_exclude_unset_def weak_change_def alice_weak_def alice_def bob_def Let_def
      verify_password_def pwd_context_verify_def bcrypt_identify_def bcrypt_ident_values_def
      toy_bcrypt_verify_def toy_bcrypt_hash_def hash_password_def)



section \<open>The credential validator\<close>

text \<open>
  Claim C7. For every password, \<open>validate_password\<close> succeeds exactly when the password
  has at least 6 characters, an uppercase letter, a lowercase letter, a digit and one of
  the characters \<^verbatim>\<open>@ $ ! % * ? & #\<close>. The rules are checked in this order and the
  failure carries the message of the first rule that is violated; \<^verbatim>\<open>"abc"\<close> fails with
  the message of the length rule.
\<close>

theorem validate_password_rules:
  "validate_password pw =
    (if length pw < 6
       then Inl (HTTPException 400 ''Password must be at least 6 characters long.'' None)
     else if \<not> (\<exists>c \<in> set pw. c \<in> set ''ABCDEFGHIJKLMNOPQRSTUVWXYZ'')
       then Inl (HTTPException 400 ''Password must contain at least one uppercase letter.'' None)
     else if \<not> (\<exists>c \<in> set pw. c \<in> set ''abcdefghijklmnopqrstuvwxyz'')
       then Inl (HTTPException 400 ''Password must contain at least one lowercase letter.'' None)
     else if \<not> (\<exists>c \<in> set pw. c \<in> set ''0123456789'')
       then Inl (HTTPException 400 ''Password must contain at least one number.'' None)
     else if \<not> (\<exists>c \<in> set pw. c \<in> set ''@$!%*?&#'')
       then Inl (HTTPException 400 ''Password must contain at least one special character.'' None)
     else Inr ())"
  unfolding validate_password_def validation_rules_def re_search_range_def re_search_set_def
    list_ex_iff upper_iff lower_iff digit_iff
  by (simp add: not_less)

theorem validate_password_rules_witness:
  "validate_password ''abc'' =
     Inl (HTTPException 400 ''Password must be at least 6 characters long.'' None)
   \<and> validate_password ''str0ng!pw'' =
     Inl (HTTPException 400 ''Password must contain at least one uppercase letter.'' None)
   \<and> validate_password ''Str0ng!Pw'' = Inr ()"
  using validate_password_rules [of "''abc''"] validate_password_rules [of "''str0ng!pw''"]
    validate_password_rules [of "''Str0ng!Pw''"]
  by simp


section \<open>The role checker\<close>

text \<open>
  Claim C6. \<open>RoleChecker\<close> returns the identity unchanged exactly when its role is one
  of the allowed roles or the allowed roles contain the wildcard \<^verbatim>\<open>"*"\<close>; in every
  other case it fails with 403 Forbidden. The wildcard alone admits every role, and the
  allowed set of the administrator role alone rejects an identity of the user role.
\<close>

theorem RoleChecker_spec:
  "(RoleChecker allowed_roles user = Inr user
      \<longleftrightarrow> role user \<in> set allowed_roles \<or> ''*'' \<in> set allowed_roles)
   \<and> (RoleChecker allowed_roles user \<noteq> Inr user
      \<longrightarrow> RoleChecker allowed_roles user =
            Inl (HTTPException 403 ''You don't have enough permissions'' None))
   \<and> RoleChecker [''*''] user = Inr user
   \<and> (role user = RoleType_value USER
      \<longrightarrow> RoleChecker [RoleType_value ADMIN] user =
            Inl (HTTPException 403 ''You don't have enough permissions'' None))"
  by (simp add: RoleChecker_def)

theorem RoleChecker_spec_witness:
  "RoleChecker [RoleType_value ADMIN] alice = Inr alice
   \<and> RoleChecker [''*''] bob = Inr bob
   \<and> RoleChecker [RoleType_value ADMIN] bob =
        Inl (HTTPException 403 ''You don't have enough permissions'' None)"
proof -
  have a: "role alice \<in> set [RoleType_value ADMIN] \<or> ''*'' \<in> set [RoleType_value ADMIN]"
    by (simp add: alice_def)
  have b: "role bob = RoleType_value USER"
    by (simp add: bob_def)
  from a RoleChecker_spec [of "[RoleType_value ADMIN]" alice]
  have 1: "RoleChecker [RoleType_value ADMIN] alice = Inr alice" by blast
  from RoleChecker_spec [of "[]" bob]
  have 2: "RoleChecker [''*''] bob = Inr bob" by blast
  from b RoleChecker_spec [of "[]" bob]
  have 3: "RoleChecker [RoleType_value ADMIN] bob =
             Inl (HTTPException 403 ''You don't have enough permissions'' None)" by blast
  from 1 2 3 show ?thesis by (intro conjI)
qed


section \<open>The authenticator\<close>

text \<open>
  Claim C4. When the username names a stored user whose \<open>is_active\<close> flag is false,
  \<open>authenticate_user\<close> fails with 423 Locked for every submitted password and never
  with the credentials error. The result is the same for every behaviour \<open>bv\<close> of the
  password verification, also one that raises: the verification is not reached.
\<close>

theorem authenticate_user_locked:
  assumes "get_user name session = Inr user" and "\<not> is_active user"
  shows "authenticate_user bv name pw session = Inl (HTTPException 423 ''Inactive user.'' None)
         \<and> authenticate_user bv name pw session \<noteq> Inl CREDENTIALS_EXCEPTION"
  using assms by (simp add: authenticate_user_def CREDENTIALS_EXCEPTION_def)

theorem authenticate_user_locked_witness:
  "get_user ''bob'' [alice, bob] = Inr bob \<and> \<not> is_active bob
   \<and> authenticate_user toy_bcrypt_verify ''bob'' ''S3cret#x'' [alice, bob] =
        Inl (HTTPException 423 ''Inactive user.'' None)
   \<and> authenticate_user toy_bcrypt_verify ''bob'' ''wrong'' [alice, bob] =
        Inl (HTTPException 423 ''Inactive user.'' None)"
proof -
  have g: "get_user ''bob'' [alice, bob] = Inr bob"
    by (simp add: get_user_def select_first_def alice_def bob_def)
  have a: "\<not> is_active bob" by (simp add: bob_def)
  from authenticate_user_locked [OF g a]
  have "authenticate_user toy_bcrypt_verify ''bob'' ''S3cret#x'' [alice, bob] =
          Inl (HTTPException 423 ''Inactive user.'' None)"
    and "authenticate_user toy_bcrypt_verify ''bob'' ''wrong'' [alice, bob] =
          Inl (HTTPException 423 ''Inactive user.'' None)"
    by blast+
  with g a show ?thesis by (intro conjI)
qed


section \<open>Registration\<close>

text \<open>
  Claim C9. When the username or the email of a registration request already belongs to
  a stored user, \<open>create_user\<close> fails with 409 Conflict and the table after the request
  is the table before it: no row is added and no row is changed.
\<close>

theorem create_user_conflict:
  assumes "\<exists>r \<in> set session. username r = username user \<or> email r = email user"
  shows "(\<exists>d. fst (create_user bh now user session) = Inl (HTTPException 409 d None))
         \<and> snd (create_user bh now user session) = session"
proof (cases "select_first (\<lambda>r. username r = username user) session \<noteq> None")
  case True
  then show ?thesis by (simp add: create_user_def)
next
  case False
  then have "\<not> (\<exists>r \<in> set session. username r = username user)"
    using select_first_found [of "\<lambda>r. username r = username user" session] by blast
  with assms have "\<exists>r \<in> set session. email r = email user" by blast
  then have "select_first (\<lambda>r. email r = email user) session \<noteq> None"
    using select_first_found [of "\<lambda>r. email r = email user" session] by blast
  with False show ?thesis by (simp add: create_user_def)
qed

theorem create_user_conflict_witness:
  "(\<exists>r \<in> set [alice, bob]. username r = username dup_alice \<or> email r = email dup_alice)
   \<and> (\<exists>d. fst (create_user toy_bcrypt_hash 5 dup_alice [alice, bob]) =
             Inl (HTTPException 409 d None))
   \<and> snd (create_user toy_bcrypt_hash 5 dup_alice [alice, bob]) = [alice, bob]"
proof -
  have h: "\<exists>r \<in> set [alice, bob]. username r = username dup_alice \<or> email r = email dup_alice"
    by (simp add: alice_def dup_alice_def)
  show ?thesis by (rule conjI [OF h create_user_conflict [OF h]])
qed


section \<open>The token codec\<close>





section \<open>Login and refresh\<close>

text \<open>
  Claim C5. The refresh token that a successful login issues carries the subject and
  the expiry and no role. Every successful refresh issues an access token whose role is
  the role of the row that the directory holds for the subject at the time of the
  refresh, whatever the role was at login. This holds for every behaviour \<open>vc\<close> of
  PyJWT's validation of the claims.
\<close>

theorem refresh_uses_stored_role:
  "(login_for_access_token bv K now name pw session = Inr t \<longrightarrow>
      dom (jws_payload (refresh_token_value t)) = {''sub'', ''exp''}
      \<and> jws_payload (refresh_token_value t) ''sub'' = Some (JStr name)
      \<and> jws_payload (refresh_token_value t) ''role'' = None)
   \<and> (refresh_token vc K now' r session' = Inr t' \<longrightarrow>
      (\<exists>payload sub user. decode_token vc K now' r = Inr payload
          \<and> payload ''sub'' = Some (JStr sub)
          \<and> get_user sub session' = Inr user
          \<and> jws_payload (access_token t') ''role'' = Some (JStr (role user))))"
proof (intro conjI impI)
  assume "login_for_access_token bv K now name pw session = Inr t"
  then obtain user where u: "authenticate_user bv name pw session = Inr user"
    and t: "t = issue_tokens K now user"
    using login_ok by blast
  have n: "username user = name" using u by (rule authenticate_user_username)
  show "dom (jws_payload (refresh_token_value t)) = {''sub'', ''exp''}"
    unfolding t issue_tokens_refresh_payload by auto
  show "jws_payload (refresh_token_value t) ''sub'' = Some (JStr name)"
    unfolding t issue_tokens_refresh_payload using n by simp
  show "jws_payload (refresh_token_value t) ''role'' = None"
    unfolding t issue_tokens_refresh_payload by simp
next
  assume "refresh_token vc K now' r session' = Inr t'"
  then obtain payload sub user where d: "decode_token vc K now' r = Inr payload"
    and s: "payload ''sub'' = Some (JStr sub)"
    and g: "get_user sub session' = Inr user"
    and t: "t' = issue_tokens K now' user"
    using refresh_ok by blast
  have "jws_payload (access_token t') ''role'' = Some (JStr (role user))"
    unfolding t issue_tokens_access_payload by simp
  with d s g show "\<exists>payload sub user. decode_token vc K now' r = Inr payload
          \<and> payload ''sub'' = Some (JStr sub)
          \<and> get_user sub session' = Inr user
          \<and> jws_payload (access_token t') ''role'' = Some (JStr (role user))"
    by blast
qed

theorem refresh_uses_stored_role_witness:
  "login_for_access_token toy_bcrypt_verify ''k'' 1000 ''alice'' ''Str0ng!Pw'' [alice, bob] =
     Inr (issue_tokens ''k'' 1000 alice)
   \<and> jws_payload (refresh_token_value (issue_tokens ''k'' 1000 alice)) ''role'' = None
   \<and> refresh_token nbf_exp_validation ''k'' 2000 (refresh_token_value (issue_tokens ''k'' 1000 alice))
         [alice_demoted, bob] = Inr (issue_tokens ''k'' 2000 alice_demoted)
   \<and> jws_payload (access_token (issue_tokens ''k'' 2000 alice_demoted)) ''role'' =
         Some (JStr ''Utilisateur'')"
proof -
  let ?r = "refresh_token_value (issue_tokens ''k'' 1000 alice)"
  have au: "authenticate_user toy_bcrypt_verify ''alice'' ''Str0ng!Pw'' [alice, bob] = Inr alice"
    by (simp add: authenticate_user_def get_user_def select_first_def verify_password_def
        pwd_context_verify_def bcrypt_identify_def bcrypt_ident_values_def
        toy_bcrypt_verify_def toy_bcrypt_hash_def alice_def)
  have L: "login_for_access_token toy_bcrypt_verify ''k'' 1000 ''alice'' ''Str0ng!Pw''
             [alice, bob] = Inr (issue_tokens ''k'' 1000 alice)"
    by (simp add: login_for_access_token_def au object_truthy_def)
  have r: "?r = JWS ALGORITHM ''k'' [''sub'' \<mapsto> JStr ''alice'', ''exp'' \<mapsto> JNum 605800]"
    by (simp add: issue_tokens_def encode_token_def jwt_encode_def timedelta_days_def
        REFRESH_TOKEN_EXPIRE_DAYS_def alice_def)
  have d: "decode_token nbf_exp_validation ''k'' 2000 ?r =
             Inr [''sub'' \<mapsto> JStr ''alice'', ''exp'' \<mapsto> JNum 605800]"
    unfolding r by (simp add: decode_token_def nbf_exp_validation_def exp_validation_def)
  have g: "get_user ''alice'' [alice_demoted, bob] = Inr alice_demoted"
    by (simp add: get_user_def select_first_def alice_demoted_def alice_def)
  have R: "refresh_token nbf_exp_validation ''k'' 2000 ?r [alice_demoted, bob] =
             Inr (issue_tokens ''k'' 2000 alice_demoted)"
    by (simp add: refresh_token_def d g object_truthy_def)
  from refresh_uses_stored_role [where bv = toy_bcrypt_verify and K = "''k''" and now = 1000
      and name = "''alice''" and pw = "''Str0ng!Pw''" and session = "[alice, bob]"
      and t = "issue_tokens ''k'' 1000 alice" and vc = nbf_exp_validation and now' = 2000
      and r = ?r and session' = "[alice_demoted, bob]"
      and t' = "issue_tokens ''k'' 2000 alice_demoted"] L R
  have 1: "jws_payload ?r ''role'' = None"
    and 2: "\<exists>payload sub user. decode_token nbf_exp_validation ''k'' 2000 ?r = Inr payload
          \<and> payload ''sub'' = Some (JStr sub)
          \<and> get_user sub [alice_demoted, bob] = Inr user
          \<and> jws_payload (access_token (issue_tokens ''k'' 2000 alice_demoted)) ''role'' =
              Some (JStr (role user))"
    by blast+
  from 2 obtain payload sub user where
    p: "decode_token nbf_exp_validation ''k'' 2000 ?r = Inr payload" and
    s: "payload ''sub'' = Some (JStr sub)" and
    u: "get_user sub [alice_demoted, bob] = Inr user" and
    c: "jws_payload (access_token (issue_tokens ''k'' 2000 alice_demoted)) ''role'' =
          Some (JStr (role user))"
    by blast
  from p d have "payload = [''sub'' \<mapsto> JStr ''alice'', ''exp'' \<mapsto> JNum 605800]" by simp
  with s have "sub = ''alice''" by simp
  with u g have "user = alice_demoted" by simp
  then have "role user = ''Utilisateur''" by (simp add: alice_demoted_def)
  with c have 3: "jws_payload (access_token (issue_tokens ''k'' 2000 alice_demoted)) ''role'' =
         Some (JStr ''Utilisateur'')" by simp
  from L 1 R 3 show ?thesis by (intro conjI)
qed

text \<open>
  Claim C3. A refresh whose token decodes but whose subject names no stored user issues
  no token pair. The claim expects the credentials error (401); the handler fails with
  404: \<open>get_user\<close> raises before the handler's own test of the user, which would raise
  401, is reached.
\<close>

theorem refresh_token_unknown_subject:
  assumes d: "decode_token vc K now r = Inr payload"
    and nobody: "\<forall>sub. payload ''sub'' = Some (JStr sub) \<longrightarrow> (\<forall>row \<in> set session. username row \<noteq> sub)"
  shows "refresh_token vc K now r session = Inl (HTTPException 404 ''User not found'' None)
         \<and> refresh_token vc K now r session \<noteq> Inl CREDENTIALS_EXCEPTION
         \<and> refresh_token vc K now r session \<noteq> Inl (HTTPException 401 ''Invalid refresh token.'' None)"
proof -
  have g: "get_user sub session = Inl (HTTPException 404 ''User not found'' None)"
    if "payload ''sub'' = Some (JStr sub)" for sub
  proof -
    from that nobody have "\<not> (\<exists>row \<in> set session. username row = sub)" by blast
    then have "select_first (\<lambda>row. username row = sub) session = None"
      using select_first_found [of "\<lambda>row. username row = sub" session] by blast
    then show ?thesis by (simp add: get_user_def)
  qed
  have "refresh_token vc K now r session = Inl (HTTPException 404 ''User not found'' None)"
    unfolding refresh_token_def using g
    by (simp add: d split: option.splits jval.splits)
  then show ?thesis by (simp add: CREDENTIALS_EXCEPTION_def)
qed

theorem refresh_token_unknown_subject_witness:
  "decode_token nbf_exp_validation ''k'' 2000 stale_refresh =
     Inr [''sub'' \<mapsto> JStr ''carol'', ''exp'' \<mapsto> JNum 605800]
   \<and> refresh_token nbf_exp_validation ''k'' 2000 stale_refresh [alice, bob] =
        Inl (HTTPException 404 ''User not found'' None)"
proof -
  let ?p = "[''sub'' \<mapsto> JStr ''carol'', ''exp'' \<mapsto> JNum 605800]"
  have d: "decode_token nbf_exp_validation ''k'' 2000 stale_refresh = Inr ?p"
    by (simp add: stale_refresh_def encode_token_def jwt_encode_def decode_token_def
        nbf_exp_validation_def exp_validation_def timedelta_days_def
        REFRESH_TOKEN_EXPIRE_DAYS_def)
  have n: "\<forall>sub. ?p ''sub'' = Some (JStr sub) \<longrightarrow> (\<forall>row \<in> set [alice, bob]. username row \<noteq> sub)"
    by (simp add: alice_def bob_def)
  from refresh_token_unknown_subject [OF d n]
  have "refresh_token nbf_exp_validation ''k'' 2000 stale_refresh [alice, bob] =
        Inl (HTTPException 404 ''User not found'' None)" by blast
  with d show ?thesis by (intro conjI)
qed

section \<open>The password hasher\<close>

text \<open>
  Claim C2, as amended. \<open>verify_password\<close> returns a boolean exactly when bcrypt
  identifies the hash string and bcrypt's verification returns that boolean. On an
  identified hash it returns or raises what bcrypt's verification returns or raises; on
  a hash string that bcrypt does not identify it raises \<open>UnknownHashError\<close>. It has no
  handler of its own, so a malformed hash string is not turned into \<open>False\<close>.
\<close>

theorem verify_password_propagates:
  "(verify_password bv plain h = Inr b \<longleftrightarrow> bcrypt_identify h \<and> bv plain h = Inr b)
   \<and> (bcrypt_identify h \<longrightarrow> verify_password bv plain h = bv plain h)
   \<and> (\<not> bcrypt_identify h \<longrightarrow> verify_password bv plain h = Inl UnknownHashError)"
  by (simp add: verify_password_def pwd_context_verify_def)

theorem verify_password_propagates_witness:
  "bcrypt_identify (toy_bcrypt_hash ''Str0ng!Pw'')
   \<and> verify_password toy_bcrypt_verify ''Str0ng!Pw'' (toy_bcrypt_hash ''Str0ng!Pw'') = Inr True
   \<and> verify_password toy_bcrypt_verify ''wrong'' (toy_bcrypt_hash ''Str0ng!Pw'') = Inr False"
proof -
  have i: "bcrypt_identify (toy_bcrypt_hash ''Str0ng!Pw'')"
    by (simp add: bcrypt_identify_def bcrypt_ident_values_def toy_bcrypt_hash_def)
  have t: "toy_bcrypt_verify ''Str0ng!Pw'' (toy_bcrypt_hash ''Str0ng!Pw'') = Inr True"
    and f: "toy_bcrypt_verify ''wrong'' (toy_bcrypt_hash ''Str0ng!Pw'') = Inr False"
    by (simp_all add: toy_bcrypt_verify_def toy_bcrypt_hash_def)
  from i t verify_password_propagates [of toy_bcrypt_verify "''Str0ng!Pw''"
      "toy_bcrypt_hash ''Str0ng!Pw''" True]
  have 1: "verify_password toy_bcrypt_verify ''Str0ng!Pw'' (toy_bcrypt_hash ''Str0ng!Pw'') =
             Inr True" by blast
  from i f verify_password_propagates [of toy_bcrypt_verify "''wrong''"
      "toy_bcrypt_hash ''Str0ng!Pw''" False]
  have 2: "verify_password toy_bcrypt_verify ''wrong'' (toy_bcrypt_hash ''Str0ng!Pw'') =
             Inr False" by blast
  from i 1 2 show ?thesis by (intro conjI)
qed

text \<open>
  The claim C2 as the specification states it (on a malformed hash string the
  verification returns false and never raises) fails on a string without a bcrypt
  prefix.
\<close>

theorem verify_password_malformed_counterexample:
  "verify_password toy_bcrypt_verify ''secret'' ''not-a-hash'' = Inl UnknownHashError
   \<and> verify_password toy_bcrypt_verify ''secret'' ''not-a-hash'' \<noteq> Inr False"
  by (simp add: verify_password_def pwd_context_verify_def bcrypt_identify_def
      bcrypt_ident_values_def)

section \<open>Updating a user\<close>

text \<open>
  Claim C1. The claim expects a new password to be checked against the strength policy
  before it is hashed and stored. \<open>update_user\<close> does not call \<open>validate_password\<close>: when
  both passwords are supplied and the old one matches the stored hash, the update
  stores the hash of the new password, whatever the new password is, unless the
  database refuses the commit for another field of the body. The evaluation below
  stores the hash of \<^verbatim>\<open>"abc"\<close>, which \<open>validate_password\<close> rejects.
\<close>

theorem update_user_password_unvalidated:
  assumes u: "get_user_by_id session user_id = Inr user"
    and old: "old_password upd = Given (Some old)" and new: "new_password upd = Given (Some new)"
    and ne: "old \<noteq> []" "new \<noteq> []"
    and v: "verify_password bv old (hashed_password user) = Inr True"
    and db: "fst (update_user engine bh bv now user_id upd session) \<noteq> Inl DBAPIError"
  shows "\<exists>stored.
           update_user engine bh bv now user_id upd session =
             (Inr stored, map (\<lambda>r. if uid r = user_id then stored else r) session)
           \<and> hashed_password stored = hash_password bh new"
proof -
  let ?d = "(model_dump_exclude_unset upd)(''hashed_password'' \<mapsto> PStr (hash_password bh new))"
  let ?pending = "sqlmodel_update user ?d"
  let ?loaded = "if ?d ''role'' \<noteq> None then ?pending\<lparr>role := role_read_back (role ?pending)\<rparr>
                 else ?pending"
  let ?stored = "update_timestamp now (is_dirty ?d) ?loaded"
  have run: "update_user engine bh bv now user_id upd session =
               commit_loaded engine now ?d ?pending session"
    by (rule update_user_checked [OF u old new ne v])
  with db have "fst (commit_loaded engine now ?d ?pending session) \<noteq> Inl DBAPIError" by simp
  from commit_loaded_outcome(2) [OF this] run
  have res: "update_user engine bh bv now user_id upd session =
               (Inr ?stored, map (\<lambda>r. if uid r = uid ?pending then ?stored else r) session)"
    by simp
  have id: "uid ?pending = user_id"
    using get_user_by_id_uid [OF u] by (simp add: sqlmodel_update_fields)
  have "hashed_password ?stored = hash_password bh new"
    by (simp add: update_timestamp_fields sqlmodel_update_fields)
  with res id show ?thesis by auto
qed

theorem update_user_password_unvalidated_witness:
  "validate_password ''abc'' =
     Inl (HTTPException 400 ''Password must be at least 6 characters long.'' None)
   \<and> update_user no_objection toy_bcrypt_hash toy_bcrypt_verify 7 1 weak_change [alice, bob] =
        (Inr alice_weak, [alice_weak, bob])
   \<and> hashed_password alice_weak = hash_password toy_bcrypt_hash ''abc''"
proof -
  have w: "validate_password ''abc'' =
     Inl (HTTPException 400 ''Password must be at least 6 characters long.'' None)"
    by (simp add: validate_password_def validation_rules_def)
  have g: "get_user_by_id [alice, bob] 1 = Inr alice"
    by (simp add: get_user_by_id_def session_get_def alice_def)
  have o: "old_password weak_change = Given (Some ''Str0ng!Pw'')"
    and n: "new_password weak_change = Given (Some ''abc'')"
    by (simp_all add: weak_change_def)
  have ne: "''Str0ng!Pw'' \<noteq> []" "''abc'' \<noteq> []" by simp_all
  have v: "verify_password toy_bcrypt_verify ''Str0ng!Pw'' (hashed_password alice) = Inr True"
    by (simp add: verify_password_def pwd_context_verify_def bcrypt_identify_def
        bcrypt_ident_values_def toy_bcrypt_verify_def toy_bcrypt_hash_def alice_def)
  have db: "fst (update_user no_objection toy_bcrypt_hash toy_bcrypt_verify 7 1 weak_change
                  [alice, bob]) \<noteq> Inl DBAPIError"
    unfolding eval_weak_change by simp
  from update_user_password_unvalidated [OF g o n ne v db]
  obtain stored where
    run: "update_user no_objection toy_bcrypt_hash toy_bcrypt_verify 7 1 weak_change [alice, bob] =
            (Inr stored, map (\<lambda>r. if uid r = 1 then stored else r) [alice, bob])"
    and h: "hashed_password stored = hash_password toy_bcrypt_hash ''abc''"
    by blast
  from run eval_weak_change have "stored = alice_weak" by simp
  with h have 1: "hashed_password alice_weak = hash_password toy_bcrypt_hash ''abc''" by simp
  from w eval_weak_change 1 show ?thesis by (intro conjI)
qed

text \<open>
  Claim C10, as amended. When the user exists, the body of the update leaves out
  \<open>old_password\<close> or leaves out \<open>new_password\<close>, and the database does not refuse the
  commit, \<open>update_user\<close> returns without error, the fields that the body supplies are
  applied (the role as the Enum column reads it back), the other fields keep their
  values, and the stored \<open>hashed_password\<close> is unchanged: the half of a password change
  that the body supplies is skipped, neither applied nor rejected.
\<close>

theorem update_user_one_sided_password:
  assumes u: "get_user_by_id session user_id = Inr user"
    and one: "old_password upd = Unset \<or> new_password upd = Unset"
    and db: "fst (update_user engine bh bv now user_id upd session) \<noteq> Inl DBAPIError"
  shows "\<exists>stored.
           update_user engine bh bv now user_id upd session =
             (Inr stored, map (\<lambda>r. if uid r = user_id then stored else r) session)
           \<and> hashed_password stored = hashed_password user
           \<and> username stored =
               (case u_username upd of Given (Some s) \<Rightarrow> s | _ \<Rightarrow> username user)
           \<and> email stored = (case u_email upd of Given (Some s) \<Rightarrow> s | _ \<Rightarrow> email user)
           \<and> first_name stored =
               (case u_first_name upd of Unset \<Rightarrow> first_name user | Given v \<Rightarrow> v)
           \<and> last_name stored =
               (case u_last_name upd of Unset \<Rightarrow> last_name user | Given v \<Rightarrow> v)
           \<and> is_active stored =
               (case u_is_active upd of Given (Some b) \<Rightarrow> b | _ \<Rightarrow> is_active user)
           \<and> role stored =
               (case u_role upd of Given (Some s) \<Rightarrow> role_read_back s | _ \<Rightarrow> role user)
           \<and> uid stored = uid user
           \<and> created_at stored = created_at user"
proof -
  let ?d = "model_dump_exclude_unset upd"
  let ?pending = "sqlmodel_update user ?d"
  let ?loaded = "if ?d ''role'' \<noteq> None then ?pending\<lparr>role := role_read_back (role ?pending)\<rparr>
                 else ?pending"
  let ?stored = "update_timestamp now (is_dirty ?d) ?loaded"
  have nt: "\<not> (truthy (?d ''old_password'') \<and> truthy (?d ''new_password''))"
    using one by (auto simp: model_dump_keys)
  have run: "update_user engine bh bv now user_id upd session =
               commit_loaded engine now ?d ?pending session"
    by (rule update_user_unchecked [OF u nt])
  with db have ok: "fst (commit_loaded engine now ?d ?pending session) \<noteq> Inl DBAPIError"
    by simp
  have id: "uid ?pending = user_id"
    using get_user_by_id_uid [OF u] by (simp add: sqlmodel_update_fields)
  from commit_loaded_outcome(2) [OF ok] run id
  have res: "update_user engine bh bv now user_id upd session =
               (Inr ?stored, map (\<lambda>r. if uid r = user_id then ?stored else r) session)"
    by simp
  have nonull: "u_role upd \<noteq> Given None"
    using refused_null_role [OF commit_loaded_outcome(1) [OF ok]]
    by (simp add: model_dump_keys dump_opt_str_null)
  have "hashed_password ?stored = hashed_password user"
    by (simp add: update_timestamp_fields sqlmodel_update_fields model_dump_keys)
  moreover have "username ?stored =
      (case u_username upd of Given (Some s) \<Rightarrow> s | _ \<Rightarrow> username user)"
    by (simp add: update_timestamp_fields sqlmodel_update_fields model_dump_keys dump_cases)
  moreover have "email ?stored = (case u_email upd of Given (Some s) \<Rightarrow> s | _ \<Rightarrow> email user)"
    by (simp add: update_timestamp_fields sqlmodel_update_fields model_dump_keys dump_cases)
  moreover have "first_name ?stored =
      (case u_first_name upd of Unset \<Rightarrow> first_name user | Given v \<Rightarrow> v)"
    by (simp add: update_timestamp_fields sqlmodel_update_fields model_dump_keys dump_cases)
  moreover have "last_name ?stored =
      (case u_last_name upd of Unset \<Rightarrow> last_name user | Given v \<Rightarrow> v)"
    by (simp add: update_timestamp_fields sqlmodel_update_fields model_dump_keys dump_cases)
  moreover have "is_active ?stored =
      (case u_is_active upd of Given (Some b) \<Rightarrow> b | _ \<Rightarrow> is_active user)"
    by (simp add: update_timestamp_fields sqlmodel_update_fields model_dump_keys dump_cases)
  moreover have "role ?stored =
      (case u_role upd of Given (Some s) \<Rightarrow> role_read_back s | _ \<Rightarrow> role user)"
    using nonull
    by (cases "u_role upd" rule: dump_opt_str.cases)
       (simp_all add: update_timestamp_fields sqlmodel_update_fields model_dump_keys)
  moreover have "uid ?stored = uid user"
    by (simp add: update_timestamp_fields sqlmodel_update_fields)
  moreover have "created_at ?stored = created_at user"
    by (simp add: update_timestamp_fields sqlmodel_update_fields)
  ultimately show ?thesis using res by blast
qed

theorem update_user_one_sided_password_witness:
  "get_user_by_id [alice, bob] 2 = Inr bob
   \<and> (old_password patch_bob = Unset \<or> new_password patch_bob = Unset)
   \<and> update_user no_objection toy_bcrypt_hash toy_bcrypt_verify 7 2 patch_bob [alice, bob] =
        (Inr bob_patched, [alice, bob_patched])
   \<and> hashed_password bob_patched = hashed_password bob
   \<and> email bob_patched = ''bob@new.example.org''
   \<and> role bob_patched = ''Testeur''
   \<and> is_active bob_patched"
proof -
  have g: "get_user_by_id [alice, bob] 2 = Inr bob"
    by (simp add: get_user_by_id_def session_get_def alice_def bob_def)
  have o: "old_password patch_bob = Unset \<or> new_password patch_bob = Unset"
    by (simp add: patch_bob_def)
  have db: "fst (update_user no_objection toy_bcrypt_hash toy_bcrypt_verify 7 2 patch_bob
                  [alice, bob]) \<noteq> Inl DBAPIError"
    unfolding eval_patch_bob by simp
  from update_user_one_sided_password [OF g o db]
  obtain stored where
    run: "update_user no_objection toy_bcrypt_hash toy_bcrypt_verify 7 2 patch_bob [alice, bob] =
            (Inr stored, map (\<lambda>r. if uid r = 2 then stored else r) [alice, bob])"
    and h: "hashed_password stored = hashed_password bob"
    and e: "email stored = (case u_email patch_bob of Given (Some s) \<Rightarrow> s | _ \<Rightarrow> email bob)"
    and r: "role stored =
              (case u_role patch_bob of Given (Some s) \<Rightarrow> role_read_back s | _ \<Rightarrow> role bob)"
    and a: "is_active stored =
              (case u_is_active patch_bob of Given (Some b) \<Rightarrow> b | _ \<Rightarrow> is_active bob)"
    by blast
  from run eval_patch_bob have s: "stored = bob_patched" by simp
  from h s have 1: "hashed_password bob_patched = hashed_password bob" by simp
  from e s have 2: "email bob_patched = ''bob@new.example.org''" by (simp add: patch_bob_def)
  from r s have 3: "role bob_patched = ''Testeur''"
    by (simp add: patch_bob_def role_read_back_def role_column_def)
  from a s have 4: "is_active bob_patched" by (simp add: patch_bob_def)
  from g o eval_patch_bob 1 2 3 4 show ?thesis by (intro conjI)
qed

text \<open>
  The claim C10 as the specification states it (every such update completes without
  error) fails for a user id that names no row, for a username that another row holds,
  and for a role that is no member of \<^verbatim>\<open>RoleType\<close>. All three bodies supply
  \<open>new_password\<close> and leave out \<open>old_password\<close>.
\<close>

theorem update_user_one_sided_password_counterexample:
  "update_user no_objection toy_bcrypt_hash toy_bcrypt_verify 7 99 patch_bob [alice, bob] =
     (Inl (HTTPException 404 ''User not found.'' None), [alice, bob])
   \<and> update_user no_objection toy_bcrypt_hash toy_bcrypt_verify 7 2 take_alice_name [alice, bob] =
     (Inl DBAPIError, [alice, bob])
   \<and> update_user no_objection toy_bcrypt_hash toy_bcrypt_verify 7 2 unknown_role [alice, bob] =
     (Inl DBAPIError, [alice, bob])"
proof (intro conjI)
  show "update_user no_objection toy_bcrypt_hash toy_bcrypt_verify 7 99 patch_bob [alice, bob] =
     (Inl (HTTPException 404 ''User not found.'' None), [alice, bob])"
    by (simp add: update_user_def get_user_by_id_def session_get_def alice_def bob_def)
  show "update_user no_objection toy_bcrypt_hash toy_bcrypt_verify 7 2 take_alice_name
          [alice, bob] = (Inl DBAPIError, [alice, bob])"
    by (simp add: update_user_def get_user_by_id_def session_get_def commit_loaded_def
        refused_def NOT_NULL_columns_def sqlmodel_update_def set_if_present_def
        User_fields_def model_dump_exclude_unset_def take_alice_name_def alice_def bob_def
        Let_def)
  show "update_user no_objection toy_bcrypt_hash toy_bcrypt_verify 7 2 unknown_role
          [alice, bob] = (Inl DBAPIError, [alice, bob])"
    by (simp add: update_user_def get_user_by_id_def session_get_def commit_loaded_def
        refused_def NOT_NULL_columns_def role_column_def sqlmodel_update_def
        set_if_present_def User_fields_def model_dump_exclude_unset_def unknown_role_def
        alice_def bob_def Let_def)
qed

end
